theory Spec2Isabelle
  imports Complex_Main "HOL-Library.Word"
begin

section \<open>youtube-mp3: the download, conversion and tagging pipeline\<close>

text \<open>
  The program is one script, \<^verbatim>\<open>youtube-mp3.js\<close>. Its event handlers share a few
  global variables; here every handler is a function from the state before the event to
  the state after it, and an exception a handler throws is part of that state. Clock readings (\<^verbatim>\<open>util.nowSeconds()\<close>) are inputs of the
  handlers. JavaScript numbers are modelled by exact reals and integers, \<^verbatim>\<open>NaN\<close> by
  \<open>None\<close> where it can arise.
\<close>

subsection \<open>Buffers and the progress bar\<close>

type_synonym byte = "8 word"
type_synonym buffer = "byte list"

text \<open>
  \<^verbatim>\<open>Buffer.concat(list, totalLength)\<close>: an empty buffer for an empty list; otherwise
  the buffers of the list one after the other, cut at \<^verbatim>\<open>totalLength\<close> bytes or filled
  with zero bytes up to it.
\<close>

definition Buffer_concat :: "buffer list \<Rightarrow> nat \<Rightarrow> buffer" where
  "Buffer_concat bufs totalLength =
     (if bufs = [] then []
      else take totalLength (concat bufs) @
           replicate (totalLength - length (concat bufs)) 0)"

text \<open>
  The bar of the \<^verbatim>\<open>progress\<close> package, as far as the script drives it: a total (which
  is \<^verbatim>\<open>NaN\<close>, here \<open>None\<close>, when it was built from an unparsable number) and the
  amount ticked so far. \<^verbatim>\<open>tick(len)\<close> adds \<^verbatim>\<open>len\<close>.
\<close>

record progress_bar =
  total :: "int option"
  curr :: int

definition new_ProgressBar :: "int option \<Rightarrow> progress_bar" where
  "new_ProgressBar t = \<lparr>total = t, curr = 0\<rparr>"

definition tick :: "int \<Rightarrow> progress_bar \<Rightarrow> progress_bar" where
  "tick len bar = bar\<lparr>curr := curr bar + len\<rparr>"

subsection \<open>The fetcher (lines 54 to 97)\<close>

text \<open>
  An exception raised while the script runs: a type error, a failed file-system call, or
  a failed prompt.
\<close>

datatype js_error = TypeError | FsError | PromptFailed

text \<open>
  \<^verbatim>\<open>prettyBytes\<close> of the \<^verbatim>\<open>pretty-bytes\<close> package, applied to \<^verbatim>\<open>totalSize\<close>: the
  exception it raises, if any. It throws a type error on \<^verbatim>\<open>NaN\<close> and formats any other
  number. Its two other arguments in the script, a buffer length and the rate, are always
  numbers.
\<close>

definition prettyBytes :: "int option \<Rightarrow> js_error option" where
  "prettyBytes n = (case n of None \<Rightarrow> Some TypeError | Some k \<Rightarrow> None)"

text \<open>
  What one \<^verbatim>\<open>data\<close> event hands to the bar as tokens: the arguments of the two
  \<^verbatim>\<open>prettyBytes\<close> calls of \<^verbatim>\<open>amount\<close> and the argument of the one of \<^verbatim>\<open>rate\<close>.
\<close>

record dl_report =
  amount_received :: nat
  amount_total :: "int option"
  rate :: real

text \<open>
  The variables the handlers share. \<open>uncaught\<close> is the exception a handler has thrown: a
  listener of the stream has nobody to catch it, so the process dies there.
\<close>

record fetch_state =
  data :: buffer
  videoMetadata :: "string option"
  totalSize :: "int option"
  startTime :: real
  downloadProgress :: progress_bar
  reports :: "dl_report list"
  uncaught :: "js_error option"

text \<open>
  The events of the \<^verbatim>\<open>ytdl\<close> stream before it ends: \<open>Info\<close> carries the video title,
  \<open>Response\<close> the parsed \<^verbatim>\<open>content-length\<close> header (\<open>None\<close> when \<^verbatim>\<open>parseInt\<close>
  gives \<^verbatim>\<open>NaN\<close>, as it does for a missing header), \<open>Data\<close> the clock reading of the
  handler and the chunk.
\<close>

datatype fetch_event = Info string | Response "int option" | Data real buffer

definition fetch_init :: "real \<Rightarrow> fetch_state" where
  "fetch_init now =
     \<lparr>data = [], videoMetadata = None, totalSize = Some (- 1), startTime = now,
      downloadProgress = new_ProgressBar (Some 2), reports = [], uncaught = None\<rparr>"

definition dl_divisor :: "real \<Rightarrow> real \<Rightarrow> real" where
  "dl_divisor now start = max (now - start) 1"

text \<open>Line 90, on the state that line 88 leaves.\<close>

definition dlRate :: "real \<Rightarrow> fetch_state \<Rightarrow> real" where
  "dlRate now st = real (length (data st)) / dl_divisor now (startTime st)"

text \<open>
  The \<^verbatim>\<open>data\<close> handler. The chunk is appended and the rate computed first. The
  arguments of \<^verbatim>\<open>tick\<close> are evaluated before the call: when \<^verbatim>\<open>totalSize\<close> is
  \<^verbatim>\<open>NaN\<close>, \<^verbatim>\<open>prettyBytes(totalSize)\<close> throws, and the bar is neither ticked nor given
  a report.
\<close>

definition on_data :: "real \<Rightarrow> buffer \<Rightarrow> fetch_state \<Rightarrow> fetch_state" where
  "on_data now chunk st =
     (let st1 = st\<lparr>data := Buffer_concat [data st, chunk] (length (data st) + length chunk)\<rparr>
      in case prettyBytes (totalSize st1) of
           Some err \<Rightarrow> st1\<lparr>uncaught := Some err\<rparr>
         | None \<Rightarrow>
             st1\<lparr>downloadProgress := tick (int (length chunk)) (downloadProgress st1),
                 reports := reports st1 @
                   [\<lparr>amount_received = length (data st1), amount_total = totalSize st1,
                     rate = dlRate now st1\<rparr>]\<rparr>)"

fun on_event :: "fetch_event \<Rightarrow> fetch_state \<Rightarrow> fetch_state" where
  "on_event (Info title) st =
     st\<lparr>downloadProgress := tick 1 (downloadProgress st), videoMetadata := Some title\<rparr>"
| "on_event (Response content_length) st =
     (let st1 = st\<lparr>downloadProgress := tick 1 (downloadProgress st)\<rparr>;
          st2 = st1\<lparr>totalSize := content_length\<rparr>
      in st2\<lparr>downloadProgress := new_ProgressBar (totalSize st2)\<rparr>)"
| "on_event (Data now chunk) st = on_data now chunk st"

text \<open>
  The stream's events in their order. Once a handler has thrown, the process is dead and
  no later event is handled.
\<close>

fun fetch_run :: "fetch_state \<Rightarrow> fetch_event list \<Rightarrow> fetch_state" where
  "fetch_run st [] = st"
| "fetch_run st (e # evs) =
     (case uncaught st of
        Some err \<Rightarrow> st
      | None \<Rightarrow> fetch_run (on_event e st) evs)"

text \<open>
  The events that reach a handler: all of them, or those up to and including the one
  whose handler throws.
\<close>

fun received :: "fetch_state \<Rightarrow> fetch_event list \<Rightarrow> fetch_event list" where
  "received st [] = []"
| "received st (e # evs) =
     (case uncaught st of
        Some err \<Rightarrow> []
      | None \<Rightarrow> e # received (on_event e st) evs)"

text \<open>The chunks of an event sequence, in arrival order.\<close>

fun chunks_of :: "fetch_event list \<Rightarrow> buffer list" where
  "chunks_of [] = []"
| "chunks_of (Data now chunk # evs) = chunk # chunks_of evs"
| "chunks_of (e # evs) = chunks_of evs"

subsection \<open>The transcoder's progress handler (lines 113 to 124)\<close>

text \<open>
  \<^verbatim>\<open>last\<close> is the ceiling recorded by the previous report, \<open>emitted\<close> the arguments
  of the \<^verbatim>\<open>tick\<close> calls so far. A report carries \<^verbatim>\<open>progress.percent\<close>.
\<close>

record convert_state =
  last_pct :: int
  convertProgress :: progress_bar
  emitted :: "int list"

definition convert_init :: convert_state where
  "convert_init = \<lparr>last_pct = 0, convertProgress = new_ProgressBar (Some 100), emitted = []\<rparr>"

definition on_progress :: "real \<Rightarrow> convert_state \<Rightarrow> convert_state" where
  "on_progress percent st =
     (let diff = \<lceil>percent\<rceil> - last_pct st
      in st\<lparr>last_pct := \<lceil>percent\<rceil>,
            convertProgress := tick diff (convertProgress st),
            emitted := emitted st @ [diff]\<rparr>)"

definition convert_run :: "convert_state \<Rightarrow> real list \<Rightarrow> convert_state" where
  "convert_run st ps = foldl (\<lambda>s p. on_progress p s) st ps"

text \<open>
  The deltas as the specification words them: each is the ceiling of the current
  cumulative percent minus the ceiling recorded before it.
\<close>

fun ceil_deltas :: "int \<Rightarrow> real list \<Rightarrow> int list" where
  "ceil_deltas prev [] = []"
| "ceil_deltas prev (p # ps) = (\<lceil>p\<rceil> - prev) # ceil_deltas \<lceil>p\<rceil> ps"

subsection \<open>The title pattern (line 19) and the default tags (lines 160 to 172)\<close>

text \<open>
  Strings are lists of code units below 256. \<open>js_space\<close> is what \<^verbatim>\<open>\s\<close> matches and
  what \<^verbatim>\<open>trim\<close> strips in that range: tab, line feed, vertical tab, form feed,
  carriage return, space and the no-break space.
\<close>

definition js_space :: "char \<Rightarrow> bool" where
  "js_space c = (c \<in> set [CHR 0x09, CHR 0x0A, CHR 0x0B, CHR 0x0C, CHR 0x0D, CHR 0x20, CHR 0xA0])"

text \<open>The class \<^verbatim>\<open>[\S| ]\<close>: a non-whitespace character, a bar or a space.\<close>

definition cls :: "char \<Rightarrow> bool" where
  "cls c = (\<not> js_space c \<or> c = CHR ''|'' \<or> c = CHR '' '')"

definition trim :: "string \<Rightarrow> string" where
  "trim s = rev (dropWhile js_space (rev (dropWhile js_space s)))"

text \<open>
  \<^verbatim>\<open>/([\S| ]+)-([\S| ]+)/\<close> tried at the head of \<open>s\<close>. The first group is greedy: it
  takes the whole run of class characters and gives them back one at a time. With \<open>k\<close>
  characters left in the first group, the match succeeds when a hyphen follows and at
  least one class character follows the hyphen; the second group then takes the whole run
  after the hyphen. \<open>try_split s k\<close> tries the lengths \<open>k\<close>, \<open>k - 1\<close>, ..., 1 in turn.
\<close>

fun try_split :: "string \<Rightarrow> nat \<Rightarrow> (string \<times> string) option" where
  "try_split s 0 = None"
| "try_split s (Suc k) =
     (case drop (Suc k) s of
        [] \<Rightarrow> try_split s k
      | c # rest \<Rightarrow>
          if c = CHR ''-'' \<and> takeWhile cls rest \<noteq> []
          then Some (take (Suc k) s, takeWhile cls rest)
          else try_split s k)"

definition match_here :: "string \<Rightarrow> (string \<times> string) option" where
  "match_here s = try_split s (length (takeWhile cls s))"

text \<open>
  \<^verbatim>\<open>TITLE_REGEX.exec\<close>: the match at the leftmost position that has one; the result is
  the pair of the two groups, \<open>None\<close> for \<^verbatim>\<open>null\<close>.
\<close>

fun TITLE_REGEX_exec :: "string \<Rightarrow> (string \<times> string) option" where
  "TITLE_REGEX_exec [] = None"
| "TITLE_REGEX_exec (c # cs) =
     (case match_here (c # cs) of
        Some groups \<Rightarrow> Some groups
      | None \<Rightarrow> TITLE_REGEX_exec cs)"

text \<open>The tag record; \<open>None\<close> is \<^verbatim>\<open>null\<close>.\<close>

record tags =
  title :: "string option"
  artist :: "string option"
  album :: "string option"
  genre :: "string option"
  date :: "string option"

text \<open>
  The first half of \<^verbatim>\<open>processMetadata\<close>: the record before the prompts, from the
  video's title. Its title and artist are the defaults offered by the prompts.
\<close>

definition default_tags :: "string \<Rightarrow> tags" where
  "default_tags video_title =
     (let meta = \<lparr>title = Some video_title, artist = None, album = None, genre = None,
                  date = None\<rparr>
      in case TITLE_REGEX_exec video_title of
           Some (g1, g2) \<Rightarrow> meta\<lparr>artist := Some (trim g1), title := Some (trim g2)\<rparr>
         | None \<Rightarrow> meta)"

subsection \<open>The prompts (lines 174 to 181)\<close>

text \<open>\<^verbatim>\<open>!!val\<close> for a value that is \<^verbatim>\<open>null\<close> or a string.\<close>

definition truthy :: "string option \<Rightarrow> bool" where
  "truthy v = (case v of None \<Rightarrow> False | Some s \<Rightarrow> s \<noteq> [])"

record prompt_opts =
  required :: bool
  default_value :: "string option"

datatype prompt_error = EndOfInput

text \<open>
  Modelled from the spec: \<^verbatim>\<open>prompt.js\<close> is not among the sources. The specification
  says that a field is presented for confirmation or override, that a required field
  re-prompts or fails when no value and no default is available, and that an optional
  field may be left blank. Here the user's answers are the lines still to be read: a
  non-empty line is the value; an empty line takes the default when there is one, asks a
  required field again, and leaves an optional field blank. The prompt fails when the
  input has ended.
\<close>

fun prompt :: "string \<Rightarrow> prompt_opts \<Rightarrow> string list \<Rightarrow> prompt_error + string \<times> string list" where
  "prompt label opts [] = Inl EndOfInput"
| "prompt label opts (line # rest) =
     (if line \<noteq> [] then Inr (line, rest)
      else case default_value opts of
             Some d \<Rightarrow>
               if d \<noteq> [] then Inr (d, rest)
               else if required opts then prompt label opts rest
               else Inr ([], rest)
           | None \<Rightarrow>
               if required opts then prompt label opts rest
               else Inr ([], rest))"

text \<open>
  \<^verbatim>\<open>processMetadata\<close>: the defaults from the video's title, then the five prompts in
  their order, each with the options the script passes. The result is the record and the
  input left unread.
\<close>

definition processMetadata :: "string \<Rightarrow> string list \<Rightarrow> prompt_error + tags \<times> string list" where
  "processMetadata video_title lines =
     (let meta = default_tags video_title
      in case prompt ''Title: '' \<lparr>required = True, default_value = title meta\<rparr> lines of
           Inl e \<Rightarrow> Inl e
         | Inr (t, lines1) \<Rightarrow>
      (case prompt ''Artist: '' \<lparr>required = True, default_value = artist meta\<rparr> lines1 of
           Inl e \<Rightarrow> Inl e
         | Inr (a, lines2) \<Rightarrow>
      (case prompt ''Album: '' \<lparr>required = True, default_value = None\<rparr> lines2 of
           Inl e \<Rightarrow> Inl e
         | Inr (al, lines3) \<Rightarrow>
      (case prompt ''Genre: '' \<lparr>required = False, default_value = None\<rparr> lines3 of
           Inl e \<Rightarrow> Inl e
         | Inr (g, lines4) \<Rightarrow>
      (case prompt ''Year: '' \<lparr>required = False, default_value = None\<rparr> lines4 of
           Inl e \<Rightarrow> Inl e
         | Inr (d, lines5) \<Rightarrow>
             Inr (\<lparr>title = Some t, artist = Some a, album = Some al, genre = Some g,
                   date = Some d\<rparr>, lines5))))))"

subsection \<open>Writing the tags (lines 136 and 137)\<close>

text \<open>
  A JavaScript object with its keys in insertion order. \<open>filter_object\<close> is
  \<^verbatim>\<open>filter(obj, fn)\<close> of the \<^verbatim>\<open>filter-object\<close> package: the properties whose value
  the function accepts.
\<close>

type_synonym js_object = "(string \<times> string option) list"

definition tags_object :: "tags \<Rightarrow> js_object" where
  "tags_object m =
     [(''title'', title m), (''artist'', artist m), (''album'', album m),
      (''genre'', genre m), (''date'', date m)]"

definition filter_object :: "js_object \<Rightarrow> (string option \<Rightarrow> bool) \<Rightarrow> js_object" where
  "filter_object obj f = filter (\<lambda>(key, val). f val) obj"

text \<open>The arguments of one \<^verbatim>\<open>ffMetadata.write\<close> call.\<close>

record write_call =
  target :: string
  tag_data :: js_object

definition tag_write_call :: "string \<Rightarrow> tags \<Rightarrow> write_call" where
  "tag_write_call musicFileName metadata =
     (let filtered = filter_object (tags_object metadata) truthy
      in \<lparr>target = musicFileName, tag_data = tags_object metadata\<rparr>)"

subsection \<open>The whole run\<close>

text \<open>
  One run of the script is decided by its inputs: the command line, the clock readings,
  the events of the download, how the download and the conversion end, whether the file
  system calls succeed, what \<^verbatim>\<open>processMetadata\<close> returns or that it throws, and
  whether the tag write and the probe succeed. \<open>t_start\<close>, \<open>t_init\<close> and \<open>t_converted\<close>
  are the readings of \<^verbatim>\<open>util.nowSeconds()\<close> at lines 60, 61 and 134. \<open>t_tagged\<close> is the
  clock when the callback of the tag write runs; the script takes no reading there.
\<close>

datatype stream_end = StreamEnded | StreamError

datatype convert_end = ConvertEnded | ConvertError

record scenario =
  url :: "string option"
  intermediate :: bool
  t_start :: real
  t_init :: real
  fetch_events :: "fetch_event list"
  fetch_end :: stream_end
  write_file_ok :: bool
  convert_reports :: "real list"
  convert_end :: convert_end
  unlink_ok :: bool
  t_converted :: real
  prompted :: "js_error + tags"
  write_ok :: bool
  t_tagged :: real
  probe_ok :: bool

text \<open>
  How a run ends: the script runs to its end, it calls \<^verbatim>\<open>process.exit\<close>, an exception
  nobody catches kills the process, or an exception thrown inside a continuation of a
  promise is swallowed by the promise and the process ends with nothing left to do.
\<close>

datatype ending = Finished | Exited | Uncaught js_error | Swallowed js_error

text \<open>
  What a run leaves behind: the exit status, how it ended, the messages printed, the video
  file written, the ticks of the conversion bar, whether the video file was deleted again,
  the tag write, the clock at the end of the tagging stage, and the argument of
  \<^verbatim>\<open>util.prettyTime\<close> in the \<open>Runtime\<close> line.
\<close>

record outcome =
  exit_status :: nat
  ended :: ending
  messages :: "string list"
  video_file :: "(string \<times> buffer) option"
  convert_ticks :: "int list"
  unlinked :: bool
  tag_call :: "write_call option"
  tagged_at :: "real option"
  runtime_shown :: "real option"

text \<open>\<^verbatim>\<open>error(err, msg)\<close>: the message, then \<^verbatim>\<open>process.exit(25)\<close>.\<close>

definition error :: "string \<Rightarrow> outcome \<Rightarrow> outcome" where
  "error msg out =
     out\<lparr>messages := messages out @ [''ERROR: '' @ msg], exit_status := 25, ended := Exited\<rparr>"

definition warning :: "string \<Rightarrow> outcome \<Rightarrow> outcome" where
  "warning msg out = out\<lparr>messages := messages out @ [''WARNING: '' @ msg]\<rparr>"

text \<open>
  An exception thrown in a listener of the stream or of the transcoder is caught by
  nobody: the process dies with status 1. One thrown in a continuation of a promise
  rejects the next promise, which nobody waits for: nothing more runs and the process ends
  with status 0.
\<close>

definition uncaught_exception :: "js_error \<Rightarrow> outcome \<Rightarrow> outcome" where
  "uncaught_exception err out = out\<lparr>exit_status := 1, ended := Uncaught err\<rparr>"

definition swallowed :: "js_error \<Rightarrow> outcome \<Rightarrow> outcome" where
  "swallowed err out = out\<lparr>ended := Swallowed err\<rparr>"

text \<open>The state the download leaves.\<close>

definition fetched :: "scenario \<Rightarrow> fetch_state" where
  "fetched sc = fetch_run (fetch_init (t_start sc)) (fetch_events sc)"

text \<open>
  The script from line 42 on. A run that calls \<^verbatim>\<open>process.exit\<close> stops there. In the
  continuation of the download, reading the title of a null \<^verbatim>\<open>videoMetadata\<close> (a stream
  that ended without an \<^verbatim>\<open>info\<close> event) and a failing \<^verbatim>\<open>writeFileSync\<close> throw; so
  does \<^verbatim>\<open>processMetadata\<close> in the continuation of the conversion when a prompt fails.
  \<^verbatim>\<open>unlinkSync\<close> is called in the listener of the transcoder's \<^verbatim>\<open>end\<close> event.
\<close>

definition main :: "scenario \<Rightarrow> outcome" where
  "main sc =
     (let out0 = \<lparr>exit_status = 0, ended = Finished, messages = [], video_file = None,
                  convert_ticks = [], unlinked = False, tag_call = None, tagged_at = None,
                  runtime_shown = None\<rparr>
      in if \<not> truthy (url sc) then out0\<lparr>exit_status := 55, ended := Exited\<rparr>
         else
           (let startTime = t_start sc;
                endTime = t_init sc;
                fs = fetched sc
            in (case uncaught fs of
                  Some err \<Rightarrow> uncaught_exception err out0
                | None \<Rightarrow>
             (case fetch_end sc of
                StreamError \<Rightarrow> error ''Unable to download video from youtube.'' out0
              | StreamEnded \<Rightarrow>
             (case videoMetadata fs of
                None \<Rightarrow> swallowed TypeError out0
              | Some video_title \<Rightarrow>
             (let musicFileName = video_title @ ''.mp3'';
                  videoFileName =
                    (if \<not> intermediate sc then ''/tmp/'' else []) @ video_title @ ''.mp4''
              in if \<not> write_file_ok sc then swallowed FsError out0
                 else
             (let cs = convert_run convert_init (convert_reports sc);
                  out1 = out0\<lparr>video_file := Some (videoFileName, data fs),
                              convert_ticks := emitted cs\<rparr>
              in (case convert_end sc of
                    ConvertError \<Rightarrow>
                      error ''Ffmpeg encountered an error converting video to mp3.'' out1
                  | ConvertEnded \<Rightarrow>
                      if \<not> intermediate sc \<and> \<not> unlink_ok sc
                      then uncaught_exception FsError out1
                      else
             (let out2 = out1\<lparr>unlinked := \<not> intermediate sc\<rparr>;
                  endTime = t_converted sc
              in (case prompted sc of
                    Inl err \<Rightarrow> swallowed err out2
                  | Inr metadata \<Rightarrow>
             (let out3 = out2\<lparr>tag_call := Some (tag_write_call musicFileName metadata)\<rparr>;
                  out4 = (if write_ok sc then out3
                          else warning ''Failed to write mp3 metadata.'' out3);
                  out5 = out4\<lparr>tagged_at := Some (t_tagged sc),
                              messages := messages out4 @ [''Conversion Completed!'']\<rparr>
              in if probe_ok sc
                 then out5\<lparr>runtime_shown := Some (endTime - startTime)\<rparr>
                 else out5\<lparr>messages :=
                        messages out5 @ [''Unable to read mp3 file'']\<rparr>)))))))))))"

text \<open>
  A run to evaluate the model on: a three-byte video, converted in ten seconds, tagged by
  a user who takes a minute and leaves genre and year blank.
\<close>

definition sample_run :: scenario where
  "sample_run =
     \<lparr>url = Some ''https://youtu.be/x'', intermediate = False, t_start = 0, t_init = 0,
      fetch_events = [Info ''A - B'', Response (Some 3), Data 1 [1, 2], Data 2 [3]],
      fetch_end = StreamEnded, write_file_ok = True, convert_reports = [0, 50, 100],
      convert_end = ConvertEnded, unlink_ok = True, t_converted = 10,
      prompted = Inr \<lparr>title = Some ''B'', artist = Some ''A'', album = Some ''C'',
                      genre = Some [], date = Some []\<rparr>,
      write_ok = True, t_tagged = 70, probe_ok = True\<rparr>"

text \<open>The same download from a server that sends no \<^verbatim>\<open>content-length\<close> header.\<close>

definition headerless_run :: scenario where
  "headerless_run =
     sample_run\<lparr>fetch_events := [Info ''A - B'', Response None, Data 1 [1, 2], Data 2 [3]]\<rparr>"

section \<open>Properties\<close>

subsection \<open>The byte buffer\<close>

lemma Buffer_concat_pair:
  "Buffer_concat [a, b] (length a + length b) = a @ b"
  by (simp add: Buffer_concat_def)

lemma on_event_data:
  "data (on_event e st) = data st @ concat (chunks_of [e])"
  by (cases e) (simp_all add: on_data_def Let_def Buffer_concat_pair split: option.split)

lemma chunks_of_Cons: "chunks_of (e # evs) = chunks_of [e] @ chunks_of evs"
  by (cases e) simp_all

lemma fetch_run_dead: "uncaught st = Some err \<Longrightarrow> fetch_run st evs = st"
  by (cases evs) simp_all

lemma fetch_run_data:
  "data (fetch_run st evs) = data st @ concat (chunks_of (received st evs))"
proof (induction evs arbitrary: st)
  case Nil
  show ?case by simp
next
  case (Cons e evs)
  show ?case
  proof (cases "uncaught st")
    case None
    then have "data (fetch_run st (e # evs)) = data (fetch_run (on_event e st) evs)"
      by simp
    also have "\<dots> = data (on_event e st) @ concat (chunks_of (received (on_event e st) evs))"
      by (rule Cons.IH)
    also have "\<dots> = data st @ concat (chunks_of (e # received (on_event e st) evs))"
      by (subst chunks_of_Cons [of e]) (simp add: on_event_data)
    finally show ?thesis using None by simp
  next
    case (Some err)
    then show ?thesis by simp
  qed
qed

lemma received_all: "uncaught (fetch_run st evs) = None \<Longrightarrow> received st evs = evs"
proof (induction evs arbitrary: st)
  case Nil
  show ?case by simp
next
  case (Cons e evs)
  show ?case
  proof (cases "uncaught st")
    case None
    with Cons.prems have "uncaught (fetch_run (on_event e st) evs) = None" by simp
    then have "received (on_event e st) evs = evs" by (rule Cons.IH)
    with None show ?thesis by simp
  next
    case (Some err)
    with Cons.prems show ?thesis by simp
  qed
qed

lemma received_take: "received st evs = take (length (received st evs)) evs"
  by (induction evs arbitrary: st) (simp_all split: option.split)

text \<open>
  Claim C5. Whatever events the stream delivers, the buffer holds the chunks of the
  \<^verbatim>\<open>data\<close> events that reached the handler, one after the other in arrival order, and
  its length is the sum of their lengths. The events that reach a handler are an initial
  part of the sequence, and all of it unless a handler has thrown. So for a stream that
  gets to its end the buffer is the concatenation of all chunks received.
\<close>

theorem buffer_is_concat_of_chunks:
  "data (fetch_run (fetch_init now) evs) =
     concat (chunks_of (received (fetch_init now) evs)) \<and>
   length (data (fetch_run (fetch_init now) evs)) =
     sum_list (map length (chunks_of (received (fetch_init now) evs))) \<and>
   received (fetch_init now) evs = take (length (received (fetch_init now) evs)) evs \<and>
   (uncaught (fetch_run (fetch_init now) evs) = None \<longrightarrow>
      received (fetch_init now) evs = evs \<and>
      data (fetch_run (fetch_init now) evs) = concat (chunks_of evs) \<and>
      length (data (fetch_run (fetch_init now) evs)) = sum_list (map length (chunks_of evs)))"
proof -
  let ?st = "fetch_init now"
  have d: "data (fetch_run ?st evs) = concat (chunks_of (received ?st evs))"
    by (simp add: fetch_run_data) (simp add: fetch_init_def)
  then have l: "length (data (fetch_run ?st evs)) =
      sum_list (map length (chunks_of (received ?st evs)))"
    by (simp add: length_concat)
  have t: "received ?st evs = take (length (received ?st evs)) evs"
    by (rule received_take)
  have a: "received ?st evs = evs" if "uncaught (fetch_run ?st evs) = None"
    using that by (rule received_all)
  from d l t a show ?thesis by metis
qed

theorem buffer_is_concat_of_chunks_witness:
  "uncaught (fetch_run (fetch_init 0)
      [Info ''A - B'', Response (Some 3), Data 1 [1, 2], Data 2 [3]]) = None \<and>
   data (fetch_run (fetch_init 0)
      [Info ''A - B'', Response (Some 3), Data 1 [1, 2], Data 2 [3]]) = [1, 2, 3] \<and>
   concat (chunks_of [Info ''A - B'', Response (Some 3), Data 1 [1, 2], Data 2 [3]]) =
     [1, 2, 3]"
  using buffer_is_concat_of_chunks
    [of 0 "[Info ''A - B'', Response (Some 3), Data 1 [1, 2], Data 2 [3]]"]
  by (simp add: fetch_init_def on_data_def prettyBytes_def Let_def Buffer_concat_def)

subsection \<open>The download rate\<close>










subsection \<open>A response without the length header\<close>

text \<open>
  Claim C7 states what the script should do and does not: it has no case for a missing
  \<^verbatim>\<open>content-length\<close> header. \<^verbatim>\<open>parseInt\<close> of the missing header is \<^verbatim>\<open>NaN\<close>, the first
  \<^verbatim>\<open>data\<close> handler throws at \<^verbatim>\<open>prettyBytes(totalSize)\<close> before the bar is ticked, and
  the process dies with status 1: nothing is reported and the bar has not advanced.
\<close>

theorem missing_header_first_chunk_throws:
  "uncaught (fetched headerless_run) = Some TypeError \<and>
   reports (fetched headerless_run) = [] \<and>
   curr (downloadProgress (fetched headerless_run)) = 0 \<and>
   received (fetch_init 0) (fetch_events headerless_run) =
     [Info ''A - B'', Response None, Data 1 [1, 2]] \<and>
   exit_status (main headerless_run) = 1 \<and>
   ended (main headerless_run) = Uncaught TypeError"
proof -
  have f: "fetched headerless_run =
      \<lparr>data = [1, 2], videoMetadata = Some ''A - B'', totalSize = None, startTime = 0,
       downloadProgress = \<lparr>total = None, curr = 0\<rparr>, reports = [],
       uncaught = Some TypeError\<rparr>"
    by (simp add: fetched_def headerless_run_def sample_run_def fetch_init_def on_data_def
        prettyBytes_def Let_def Buffer_concat_def new_ProgressBar_def tick_def)
  have r: "received (fetch_init 0) (fetch_events headerless_run) =
      [Info ''A - B'', Response None, Data 1 [1, 2]]"
    by (simp add: headerless_run_def sample_run_def fetch_init_def on_data_def
        prettyBytes_def Let_def Buffer_concat_def new_ProgressBar_def tick_def)
  have u: "truthy (url headerless_run)"
    by (simp add: headerless_run_def sample_run_def truthy_def)
  have "main headerless_run =
      uncaught_exception TypeError
        \<lparr>exit_status = 0, ended = Finished, messages = [], video_file = None,
         convert_ticks = [], unlinked = False, tag_call = None, tagged_at = None,
         runtime_shown = None\<rparr>"
    using u by (simp add: main_def Let_def f)
  then show ?thesis
    by (simp add: f r uncaught_exception_def)
qed

subsection \<open>Conversion progress\<close>

lemma convert_run_emitted:
  "emitted (convert_run st ps) = emitted st @ ceil_deltas (last_pct st) ps"
proof (induction ps arbitrary: st)
  case Nil
  show ?case by (simp add: convert_run_def)
next
  case (Cons p ps)
  have "convert_run st (p # ps) = convert_run (on_progress p st) ps"
    by (simp add: convert_run_def)
  then show ?case
    by (simp add: Cons.IH) (simp add: on_progress_def Let_def)
qed

lemma ceil_deltas_length: "length (ceil_deltas prev ps) = length ps"
  by (induction ps arbitrary: prev) simp_all

lemma ceil_deltas_nth:
  "i < length ps \<Longrightarrow>
   ceil_deltas prev ps ! i = \<lceil>ps ! i\<rceil> - (if i = 0 then prev else \<lceil>ps ! (i - 1)\<rceil>)"
proof (induction ps arbitrary: prev i)
  case Nil
  then show ?case by simp
next
  case (Cons p ps)
  show ?case
  proof (cases i)
    case 0
    then show ?thesis by simp
  next
    case (Suc j)
    with Cons.prems have "j < length ps" by simp
    from Cons.IH [OF this, of "\<lceil>p\<rceil>"] Suc show ?thesis
      by (cases j) simp_all
  qed
qed

lemma ceil_deltas_nonneg:
  "sorted ps \<Longrightarrow> \<forall>p \<in> set ps. prev \<le> \<lceil>p\<rceil> \<Longrightarrow> \<forall>d \<in> set (ceil_deltas prev ps). 0 \<le> d"
proof (induction ps arbitrary: prev)
  case Nil
  show ?case by simp
next
  case (Cons p ps)
  have first: "prev \<le> \<lceil>p\<rceil>"
    using Cons.prems(2) by simp
  have mono: "\<forall>q \<in> set ps. \<lceil>p\<rceil> \<le> \<lceil>q\<rceil>"
    using Cons.prems(1) by (auto intro: ceiling_mono)
  have "sorted ps"
    using Cons.prems(1) by simp
  from Cons.IH [OF this mono] first show ?case by simp
qed

lemma ceil_deltas_sum:
  "sum_list (ceil_deltas prev ps) = (if ps = [] then 0 else \<lceil>last ps\<rceil> - prev)"
  by (induction ps arbitrary: prev) simp_all


text \<open>
  Claim C4. For every sequence of percent values the reports carry, the tick emitted at a
  report is the ceiling of its percent minus the ceiling recorded at the report before
  (zero before the first). When the values are cumulative, that is, non-negative and
  never decreasing, no tick is negative; and the ticks add up to the ceiling of the last
  value, so no percentage point is counted twice. The reports 0, 5, 5, 12, 12, 12, 100
  emit 0, 5, 0, 7, 0, 0, 88.
\<close>

theorem progress_ticks_are_ceiling_deltas:
  "length (emitted (convert_run convert_init ps)) = length ps \<and>
   (\<forall>i < length ps. emitted (convert_run convert_init ps) ! i =
      \<lceil>ps ! i\<rceil> - (if i = 0 then 0 else \<lceil>ps ! (i - 1)\<rceil>)) \<and>
   (sorted ps \<and> (\<forall>p \<in> set ps. 0 \<le> p) \<longrightarrow>
      (\<forall>d \<in> set (emitted (convert_run convert_init ps)). 0 \<le> d)) \<and>
   (ps \<noteq> [] \<longrightarrow> sum_list (emitted (convert_run convert_init ps)) = \<lceil>last ps\<rceil>) \<and>
   emitted (convert_run convert_init [0, 5, 5, 12, 12, 12, 100]) = [0, 5, 0, 7, 0, 0, 88]"
proof -
  have e: "emitted (convert_run convert_init qs) = ceil_deltas 0 qs" for qs
    by (simp add: convert_run_emitted convert_init_def)
  have nonneg: "\<forall>d \<in> set (ceil_deltas 0 ps). 0 \<le> d"
    if "sorted ps" and "\<forall>p \<in> set ps. 0 \<le> p"
  proof (rule ceil_deltas_nonneg [OF that(1)])
    show "\<forall>p \<in> set ps. 0 \<le> \<lceil>p\<rceil>"
      using that(2) by auto
  qed
  show ?thesis
    unfolding e
    using nonneg by (simp add: ceil_deltas_length ceil_deltas_nth ceil_deltas_sum)
qed

theorem progress_ticks_are_ceiling_deltas_witness:
  "sorted [0, 5, 5, 12, 12, 12, 100 :: real] \<and>
   list_all (\<lambda>p. 0 \<le> p) [0, 5, 5, 12, 12, 12, 100 :: real] \<and>
   (3::nat) < length [0, 5, 5, 12, 12, 12, 100 :: real] \<and>
   [0, 5, 5, 12, 12, 12, 100 :: real] \<noteq> [] \<and>
   emitted (convert_run convert_init [0, 5, 5, 12, 12, 12, 100]) ! 3 = 7 \<and>
   list_all (\<lambda>d. 0 \<le> d) (emitted (convert_run convert_init [0, 5, 5, 12, 12, 12, 100])) \<and>
   sum_list (emitted (convert_run convert_init [0, 5, 5, 12, 12, 12, 100])) = 100"
  using progress_ticks_are_ceiling_deltas [of "[0, 5, 5, 12, 12, 12, 100]"]
  by simp

subsection \<open>Splitting the title\<close>

lemma try_split_no_hyphen: "CHR ''-'' \<notin> set s \<Longrightarrow> try_split s k = None"
proof (induction k)
  case 0
  show ?case by simp
next
  case (Suc k)
  have "c \<noteq> CHR ''-''" if "drop (Suc k) s = c # rest" for c rest
  proof -
    have "c \<in> set (drop (Suc k) s)" using that by simp
    then have "c \<in> set s" by (rule in_set_dropD)
    with Suc.prems show ?thesis by auto
  qed
  with Suc show ?case by (simp split: list.split)
qed

lemma exec_no_hyphen: "CHR ''-'' \<notin> set s \<Longrightarrow> TITLE_REGEX_exec s = None"
proof (induction s)
  case Nil
  show ?case by simp
next
  case (Cons c cs)
  have "match_here (c # cs) = None"
    unfolding match_here_def by (rule try_split_no_hyphen [OF Cons.prems])
  with Cons show ?case by simp
qed

lemma takeWhile_all: "list_all P xs \<Longrightarrow> takeWhile P xs = xs"
  by (induction xs) simp_all

lemma try_split_last_hyphen:
  assumes all: "list_all cls (a @ CHR ''-'' # t)"
    and a: "a \<noteq> []" and t: "t \<noteq> []"
    and hy: "CHR ''-'' \<notin> set (butlast t)"
  shows "length a \<le> k \<Longrightarrow> try_split (a @ CHR ''-'' # t) k = Some (a, t)"
proof (induction k)
  case 0
  with a show ?case by simp
next
  case (Suc k)
  let ?s = "a @ CHR ''-'' # t"
  have allt: "list_all cls t" using all by simp
  show ?case
  proof (cases "Suc k = length a")
    case True
    then have dr: "drop (Suc k) ?s = CHR ''-'' # t" by simp
    have tw: "takeWhile cls t = t" by (rule takeWhile_all [OF allt])
    have tk: "take (Suc k) ?s = a" using True by simp
    show ?thesis
      by (simp only: try_split.simps dr tk tw list.case) (simp add: t)
  next
    case False
    with Suc.prems have le: "length a \<le> k" by simp
    define j where "j = k - length a"
    have d: "drop (Suc k) ?s = drop j t"
      using le by (simp add: j_def Suc_diff_le)
    have no: "\<not> (c = CHR ''-'' \<and> takeWhile cls rest \<noteq> [])" if "drop j t = c # rest" for c rest
    proof
      assume h: "c = CHR ''-'' \<and> takeWhile cls rest \<noteq> []"
      then have "rest \<noteq> []" by auto
      have tj: "t = take j t @ c # rest"
        using that by (metis append_take_drop_id)
      with \<open>rest \<noteq> []\<close> have "butlast t = take j t @ c # butlast rest"
        by (metis butlast_append butlast.simps(2) list.distinct(1))
      then have "c \<in> set (butlast t)" by simp
      with h hy show False by simp
    qed
    have "try_split ?s (Suc k) = try_split ?s k"
    proof (cases "drop j t")
      case Nil
      then show ?thesis by (simp only: try_split.simps d list.case)
    next
      case (Cons c rest)
      from no [OF Cons] have "(c = CHR ''-'' \<and> takeWhile cls rest \<noteq> []) = False"
        by simp
      then show ?thesis by (simp only: try_split.simps d Cons list.case if_False)
    qed
    with Suc.IH [OF le] show ?thesis by simp
  qed
qed

lemma exec_last_hyphen:
  assumes "list_all cls (a @ CHR ''-'' # t)" and "a \<noteq> []" and "t \<noteq> []"
    and "CHR ''-'' \<notin> set (butlast t)"
  shows "TITLE_REGEX_exec (a @ CHR ''-'' # t) = Some (a, t)"
proof -
  let ?s = "a @ CHR ''-'' # t"
  have tw: "takeWhile cls ?s = ?s" by (rule takeWhile_all [OF assms(1)])
  have "match_here ?s = try_split ?s (length ?s)"
    unfolding match_here_def by (simp only: tw)
  also have "\<dots> = Some (a, t)"
    by (rule try_split_last_hyphen [OF assms]) simp
  finally have m: "match_here ?s = Some (a, t)" .
  obtain c cs where "?s = c # cs" using assms(2) by (cases a) auto
  with m show ?thesis by simp
qed

lemma trim_leading: "js_space c \<Longrightarrow> trim (c # s) = trim s"
  by (simp add: trim_def)

lemma trim_trailing: "js_space c \<Longrightarrow> trim (s @ [c]) = trim s"
proof (cases "list_all js_space s")
  case True
  assume "js_space c"
  with True have "\<forall>x \<in> set (s @ [c]). js_space x" and "\<forall>x \<in> set s. js_space x"
    by (simp_all add: list_all_iff)
  then have "dropWhile js_space (s @ [c]) = []" and "dropWhile js_space s = []"
    by (simp_all only: dropWhile_eq_Nil_conv)
  then show ?thesis by (simp only: trim_def rev.simps dropWhile.simps)
next
  case False
  assume c: "js_space c"
  from False obtain x where "x \<in> set s" "\<not> js_space x"
    by (auto simp: list_all_iff)
  then have "dropWhile js_space (s @ [c]) = dropWhile js_space s @ [c]"
    by simp
  with c show ?thesis by (simp add: trim_def)
qed

lemma cls_space: "cls (CHR '' '')" and cls_hyphen: "cls (CHR ''-'')"
  and space_space: "js_space (CHR '' '')"
  by (simp_all add: cls_def js_space_def)

text \<open>
  Claim C8, as stated, fails: the first group is greedy, so a title of the form
  \<open>Artist - Title\<close> whose title part has a hyphen of its own is split at that later
  hyphen. \<open>Taylor Swift - Anti-Hero\<close> gives the artist \<open>Taylor Swift - Anti\<close> and the
  title \<open>Hero\<close>.
\<close>

theorem hyphen_in_title_part_moves_the_split:
  "default_tags ''Taylor Swift - Anti-Hero'' =
     \<lparr>title = Some ''Hero'', artist = Some ''Taylor Swift - Anti'', album = None,
      genre = None, date = None\<rparr>"
  by (simp add: default_tags_def match_here_def cls_def js_space_def trim_def)

text \<open>
  Claim C8, amended. A title of the form \<open>Artist - Title\<close>, where both parts are made of
  characters of the pattern's class (anything but whitespace other than the space) and
  the title part has no hyphen, gives the default artist \<open>Artist\<close> and the default title
  \<open>Title\<close>, each trimmed. A title with no hyphen at all gives the whole title string as
  default title and no default artist.
\<close>

theorem default_tags_from_artist_title:
  "(list_all cls A \<and> list_all cls T \<and> CHR ''-'' \<notin> set T \<longrightarrow>
      default_tags (A @ '' - '' @ T) =
        \<lparr>title = Some (trim T), artist = Some (trim A), album = None, genre = None,
         date = None\<rparr>) \<and>
   (CHR ''-'' \<notin> set t \<longrightarrow>
      default_tags t =
        \<lparr>title = Some t, artist = None, album = None, genre = None, date = None\<rparr>)"
proof (intro conjI impI)
  assume h: "list_all cls A \<and> list_all cls T \<and> CHR ''-'' \<notin> set T"
  let ?a = "A @ '' ''" and ?t = "CHR '' '' # T"
  have eq: "A @ '' - '' @ T = ?a @ CHR ''-'' # ?t" by simp
  have all: "list_all cls (?a @ CHR ''-'' # ?t)"
    using h by (simp add: cls_space cls_hyphen)
  have "CHR ''-'' \<notin> set ?t" using h by simp
  then have hy: "CHR ''-'' \<notin> set (butlast ?t)"
    by (blast dest: in_set_butlastD)
  have "TITLE_REGEX_exec (?a @ CHR ''-'' # ?t) = Some (?a, ?t)"
    by (rule exec_last_hyphen [OF all _ _ hy]) simp_all
  then show "default_tags (A @ '' - '' @ T) =
      \<lparr>title = Some (trim T), artist = Some (trim A), album = None, genre = None,
       date = None\<rparr>"
    unfolding eq default_tags_def
    by (simp add: trim_leading [OF space_space] trim_trailing [OF space_space])
next
  assume "CHR ''-'' \<notin> set t"
  then have "TITLE_REGEX_exec t = None" by (rule exec_no_hyphen)
  then show "default_tags t =
      \<lparr>title = Some t, artist = None, album = None, genre = None, date = None\<rparr>"
    by (simp add: default_tags_def)
qed

theorem default_tags_from_artist_title_witness:
  "list_all cls ''Daft Punk '' \<and> list_all cls '' Get Lucky'' \<and>
   CHR ''-'' \<notin> set '' Get Lucky'' \<and>
   default_tags ''Daft Punk  -  Get Lucky'' =
     \<lparr>title = Some ''Get Lucky'', artist = Some ''Daft Punk'', album = None, genre = None,
      date = None\<rparr> \<and>
   CHR ''-'' \<notin> set ''No separator here'' \<and>
   default_tags ''No separator here'' =
     \<lparr>title = Some ''No separator here'', artist = None, album = None, genre = None,
      date = None\<rparr>"
  using default_tags_from_artist_title
    [of "''Daft Punk ''" "'' Get Lucky''" "''No separator here''"]
  by (simp add: cls_def js_space_def trim_def)

text \<open>
  Claim C10, as stated, fails: the second group needs a character, so a title that ends in
  a hyphen is not split at its last hyphen. \<open>A - B -\<close> gives the artist \<open>A\<close>, not
  \<open>A - B\<close>.
\<close>

theorem trailing_hyphen_not_split_at_last:
  "default_tags ''A - B -'' =
     \<lparr>title = Some ''B -'', artist = Some ''A'', album = None, genre = None, date = None\<rparr>"
  by (simp add: default_tags_def match_here_def cls_def js_space_def trim_def)

text \<open>
  Claim C10, amended. In a title made of characters of the pattern's class, the greedy
  first group ends at the last hyphen that has a character after it, provided a character
  stands before it: the default artist is the text before that hyphen and the default
  title the text after it, each trimmed. The text after it has no hyphen except possibly
  as its last character. \<open>A - B - C\<close> gives the artist \<open>A - B\<close> and the title \<open>C\<close>.
\<close>

theorem title_split_at_last_followed_hyphen:
  assumes "list_all cls (a @ CHR ''-'' # t)" and "a \<noteq> []" and "t \<noteq> []"
    and "CHR ''-'' \<notin> set (butlast t)"
  shows "default_tags (a @ CHR ''-'' # t) =
     \<lparr>title = Some (trim t), artist = Some (trim a), album = None, genre = None,
      date = None\<rparr>"
  using exec_last_hyphen [OF assms] by (simp add: default_tags_def)

theorem title_split_at_last_followed_hyphen_witness:
  "list_all cls (''A - B '' @ CHR ''-'' # '' C'') \<and> ''A - B '' \<noteq> [] \<and> '' C'' \<noteq> [] \<and>
   CHR ''-'' \<notin> set (butlast '' C'') \<and>
   default_tags ''A - B - C'' =
     \<lparr>title = Some ''C'', artist = Some ''A - B'', album = None, genre = None, date = None\<rparr>"
  using title_split_at_last_followed_hyphen [of "''A - B ''" "'' C''"]
  by (simp add: cls_def js_space_def trim_def)


subsection \<open>The prompts\<close>

lemma prompt_required_nonempty:
  "prompt label opts lines = Inr (v, rest) \<Longrightarrow> required opts \<Longrightarrow> v \<noteq> []"
  by (induction lines) (auto split: if_splits option.splits)

text \<open>
  Claim C3, as stated, fails for the album: its prompt is called with
  \<^verbatim>\<open>{required: true}\<close> and has no default. A user who accepts the defaults for title
  and artist and answers the album prompt with an empty line is asked again, and the next
  answer becomes the album.
\<close>

theorem album_cannot_be_left_blank:
  "processMetadata ''A - B'' [[], [], [], ''Rock'', [], []] =
     Inr (\<lparr>title = Some ''B'', artist = Some ''A'', album = Some ''Rock'', genre = Some [],
           date = Some []\<rparr>, [])"
  by (simp add: processMetadata_def default_tags_def match_here_def cls_def js_space_def
      trim_def)

text \<open>
  Claim C3, amended. Title, artist and album are the fields that cannot be left empty:
  whenever \<^verbatim>\<open>processMetadata\<close> returns, the three are non-empty, and an empty answer
  to the album prompt, which has no default, is asked again. Genre and date are optional:
  with the first three answered, empty answers to the last two are returned as blank
  fields.
\<close>

theorem required_and_optional_fields:
  "(processMetadata video_title lines = Inr (meta, rest) \<longrightarrow>
      truthy (title meta) \<and> truthy (artist meta) \<and> truthy (album meta)) \<and>
   (t \<noteq> [] \<and> a \<noteq> [] \<longrightarrow>
      processMetadata video_title (t # a # [] # others) =
      processMetadata video_title (t # a # others)) \<and>
   (t \<noteq> [] \<and> a \<noteq> [] \<and> al \<noteq> [] \<longrightarrow>
      processMetadata video_title [t, a, al, [], []] =
        Inr (\<lparr>title = Some t, artist = Some a, album = Some al, genre = Some [],
              date = Some []\<rparr>, []))"
proof -
  let ?d = "default_tags video_title"
  have req: "truthy (title meta) \<and> truthy (artist meta) \<and> truthy (album meta)"
    if r: "processMetadata video_title lines = Inr (meta, rest)"
  proof -
    from r obtain tv l1 av l2 alv l3 where
      p1: "prompt ''Title: '' \<lparr>required = True, default_value = title ?d\<rparr> lines = Inr (tv, l1)"
      and p2: "prompt ''Artist: '' \<lparr>required = True, default_value = artist ?d\<rparr> l1 = Inr (av, l2)"
      and p3: "prompt ''Album: '' \<lparr>required = True, default_value = None\<rparr> l2 = Inr (alv, l3)"
      and m: "title meta = Some tv" "artist meta = Some av" "album meta = Some alv"
      by (auto simp: processMetadata_def Let_def split: sum.splits prod.splits)
    from prompt_required_nonempty [OF p1] prompt_required_nonempty [OF p2]
      prompt_required_nonempty [OF p3] m
    show ?thesis by (simp add: truthy_def)
  qed
  have again: "processMetadata video_title (t # a # [] # others) =
      processMetadata video_title (t # a # others)"
    if "t \<noteq> [] \<and> a \<noteq> []"
    using that by (simp add: processMetadata_def Let_def)
  have blank: "processMetadata video_title [t, a, al, [], []] =
      Inr (\<lparr>title = Some t, artist = Some a, album = Some al, genre = Some [],
            date = Some []\<rparr>, [])"
    if "t \<noteq> [] \<and> a \<noteq> [] \<and> al \<noteq> []"
    using that by (simp add: processMetadata_def Let_def)
  from req again blank show ?thesis by blast
qed

theorem required_and_optional_fields_witness:
  "processMetadata ''A - B'' [[], [], ''Discovery'', [], []] =
     Inr (\<lparr>title = Some ''B'', artist = Some ''A'', album = Some ''Discovery'',
           genre = Some [], date = Some []\<rparr>, []) \<and>
   truthy (Some ''B'') \<and> truthy (Some ''A'') \<and> truthy (Some ''Discovery'') \<and>
   ''T'' \<noteq> [] \<and> ''R'' \<noteq> [] \<and> ''L'' \<noteq> [] \<and>
   processMetadata ''A - B'' [''T'', ''R'', [], ''L'', [], []] =
     processMetadata ''A - B'' [''T'', ''R'', ''L'', [], []] \<and>
   processMetadata ''A - B'' [''T'', ''R'', ''L'', [], []] =
     Inr (\<lparr>title = Some ''T'', artist = Some ''R'', album = Some ''L'', genre = Some [],
           date = Some []\<rparr>, [])"
  using required_and_optional_fields
    [of "''A - B''" "[[], [], ''Discovery'', [], []]"
        "\<lparr>title = Some ''B'', artist = Some ''A'', album = Some ''Discovery'',
          genre = Some [], date = Some []\<rparr>" "[]" "''T''" "''R''" "[[], []]" "''L''"]
  by (simp add: processMetadata_def default_tags_def match_here_def cls_def js_space_def
      trim_def truthy_def)

subsection \<open>The tag write\<close>

text \<open>
  Claim C2 describes what the script sets out to do and misses: line 136 computes the
  record without its empty fields, and line 137 passes the unfiltered record to
  \<^verbatim>\<open>ffMetadata.write\<close>. For a record with blank genre and date the call receives all
  five fields, the two empty strings among them, and not the three the filter keeps.
\<close>

theorem write_receives_empty_fields:
  "tag_data (tag_write_call ''B.mp3''
      \<lparr>title = Some ''B'', artist = Some ''A'', album = Some ''C'', genre = Some [],
       date = Some []\<rparr>) =
     [(''title'', Some ''B''), (''artist'', Some ''A''), (''album'', Some ''C''),
      (''genre'', Some []), (''date'', Some [])] \<and>
   filter_object (tags_object
      \<lparr>title = Some ''B'', artist = Some ''A'', album = Some ''C'', genre = Some [],
       date = Some []\<rparr>) truthy =
     [(''title'', Some ''B''), (''artist'', Some ''A''), (''album'', Some ''C'')]"
  by (simp add: tag_write_call_def tags_object_def filter_object_def truthy_def)

subsection \<open>Exit statuses\<close>

lemma sample_fetch:
  "fetched sample_run =
     \<lparr>data = [1, 2, 3], videoMetadata = Some ''A - B'', totalSize = Some 3, startTime = 0,
      downloadProgress = \<lparr>total = Some 3, curr = 3\<rparr>,
      reports = [\<lparr>amount_received = 2, amount_total = Some 3, rate = 2\<rparr>,
                 \<lparr>amount_received = 3, amount_total = Some 3, rate = 3 / 2\<rparr>],
      uncaught = None\<rparr>"
  by (simp add: fetched_def sample_run_def fetch_init_def on_data_def prettyBytes_def
      Let_def Buffer_concat_def new_ProgressBar_def tick_def dlRate_def dl_divisor_def)

lemma fetched_cong:
  "fetched (sc\<lparr>url := u\<rparr>) = fetched sc"
  "fetched (sc\<lparr>fetch_end := fe\<rparr>) = fetched sc"
  "fetched (sc\<lparr>convert_end := ce\<rparr>) = fetched sc"
  "fetched (sc\<lparr>t_tagged := t\<rparr>) = fetched sc"
  by (simp_all add: fetched_def)

text \<open>
  Claim C1, as stated, fails: a failed download and a failed conversion both end in
  \<^verbatim>\<open>error\<close>, which exits with 25.
\<close>

theorem fetch_and_convert_failure_share_exit_status:
  "exit_status (main (sample_run\<lparr>fetch_end := StreamError\<rparr>)) = 25 \<and>
   exit_status (main (sample_run\<lparr>convert_end := ConvertError\<rparr>)) = 25"
proof -
  have u: "truthy (url sample_run)"
    by (simp add: sample_run_def truthy_def)
  have "exit_status (main (sample_run\<lparr>fetch_end := StreamError\<rparr>)) = 25"
    using u by (simp add: main_def Let_def fetched_cong sample_fetch error_def)
  moreover have "exit_status (main (sample_run\<lparr>convert_end := ConvertError\<rparr>)) = 25"
    using u
    by (simp add: main_def Let_def fetched_cong sample_fetch)
      (simp add: sample_run_def error_def)
  ultimately show ?thesis by simp
qed

text \<open>
  Claim C1, amended. The process exits with 55 exactly when the URL argument is missing,
  and with 25 exactly when the download or the conversion reports an error to the script:
  the two failures share the one code. It exits with 0 on success, that is, when the
  download, the writing of the video file, the conversion, the removal of the video file
  and the prompts all go through. So success, the missing argument and a failed stage
  have three distinct codes.
\<close>

theorem exit_status_by_failure_class:
  "(exit_status (main sc) = 55 \<longleftrightarrow> \<not> truthy (url sc)) \<and>
   (exit_status (main sc) = 25 \<longleftrightarrow>
      truthy (url sc) \<and> uncaught (fetched sc) = None \<and>
      (fetch_end sc = StreamError \<or>
       videoMetadata (fetched sc) \<noteq> None \<and> write_file_ok sc \<and>
       convert_end sc = ConvertError)) \<and>
   (truthy (url sc) \<and> uncaught (fetched sc) = None \<and> fetch_end sc = StreamEnded \<and>
    videoMetadata (fetched sc) \<noteq> None \<and> write_file_ok sc \<and>
    convert_end sc = ConvertEnded \<and> (intermediate sc \<or> unlink_ok sc) \<and>
    prompted sc = Inr metadata \<longrightarrow>
      exit_status (main sc) = 0 \<and> ended (main sc) = Finished)"
proof (cases "truthy (url sc)")
  case False
  then have "exit_status (main sc) = 55"
    by (simp add: main_def Let_def)
  with False show ?thesis by simp
next
  case True
  show ?thesis
  proof (cases "uncaught (fetched sc)")
    case (Some err)
    with True have "exit_status (main sc) = 1"
      by (simp add: main_def Let_def uncaught_exception_def)
    with True Some show ?thesis by simp
  next
    case None
    with True show ?thesis
      by (auto simp: main_def Let_def error_def warning_def swallowed_def
          uncaught_exception_def
          split: stream_end.splits convert_end.splits option.splits sum.splits)
  qed
qed

theorem exit_status_by_failure_class_witness:
  "\<not> truthy (url (sample_run\<lparr>url := None\<rparr>)) \<and>
   exit_status (main (sample_run\<lparr>url := None\<rparr>)) = 55 \<and>
   truthy (url sample_run) \<and> uncaught (fetched sample_run) = None \<and>
   videoMetadata (fetched sample_run) = Some ''A - B'' \<and>
   fetch_end (sample_run\<lparr>fetch_end := StreamError\<rparr>) = StreamError \<and>
   exit_status (main (sample_run\<lparr>fetch_end := StreamError\<rparr>)) = 25 \<and>
   convert_end (sample_run\<lparr>convert_end := ConvertError\<rparr>) = ConvertError \<and>
   exit_status (main (sample_run\<lparr>convert_end := ConvertError\<rparr>)) = 25 \<and>
   exit_status (main sample_run) = 0 \<and> ended (main sample_run) = Finished"
proof -
  have s: "truthy (url sample_run)" "fetch_end sample_run = StreamEnded"
    "write_file_ok sample_run" "convert_end sample_run = ConvertEnded"
    "unlink_ok sample_run"
    "prompted sample_run = Inr \<lparr>title = Some ''B'', artist = Some ''A'', album = Some ''C'',
        genre = Some [], date = Some []\<rparr>"
    by (simp_all add: sample_run_def truthy_def)
  have n: "\<not> truthy (url (sample_run\<lparr>url := None\<rparr>))"
    by (simp add: truthy_def)
  from exit_status_by_failure_class [of "sample_run\<lparr>url := None\<rparr>"] n
  have a: "exit_status (main (sample_run\<lparr>url := None\<rparr>)) = 55"
    by simp
  from exit_status_by_failure_class [of "sample_run\<lparr>fetch_end := StreamError\<rparr>"]
  have b: "exit_status (main (sample_run\<lparr>fetch_end := StreamError\<rparr>)) = 25"
    by (simp add: fetched_cong sample_fetch s)
  from exit_status_by_failure_class [of "sample_run\<lparr>convert_end := ConvertError\<rparr>"]
  have c: "exit_status (main (sample_run\<lparr>convert_end := ConvertError\<rparr>)) = 25"
    by (simp add: fetched_cong sample_fetch s)
  from exit_status_by_failure_class [of sample_run]
  have d: "exit_status (main sample_run) = 0 \<and> ended (main sample_run) = Finished"
    by (simp add: sample_fetch s)
  from a b c d n show ?thesis
    by (simp add: sample_fetch s)
qed

text \<open>
  The other ways a run ends: an exception nobody catches gives status 1, and an exception
  swallowed by a promise gives status 0 with the later stages not run.
\<close>

lemma uncaught_and_swallowed_exits:
  "exit_status (main headerless_run) = 1 \<and>
   main (sample_run\<lparr>write_file_ok := False\<rparr>) =
     \<lparr>exit_status = 0, ended = Swallowed FsError, messages = [], video_file = None,
      convert_ticks = [], unlinked = False, tag_call = None, tagged_at = None,
      runtime_shown = None\<rparr> \<and>
   main (sample_run\<lparr>fetch_events := []\<rparr>) =
     \<lparr>exit_status = 0, ended = Swallowed TypeError, messages = [], video_file = None,
      convert_ticks = [], unlinked = False, tag_call = None, tagged_at = None,
      runtime_shown = None\<rparr>"
proof -
  have u: "truthy (url sample_run)"
    by (simp add: sample_run_def truthy_def)
  have h: "uncaught (fetched headerless_run) = Some TypeError"
    by (simp add: fetched_def headerless_run_def sample_run_def fetch_init_def on_data_def
        prettyBytes_def Let_def Buffer_concat_def)
  have "truthy (url headerless_run)"
    by (simp add: headerless_run_def sample_run_def truthy_def)
  with h have a: "exit_status (main headerless_run) = 1"
    by (simp add: main_def Let_def uncaught_exception_def)
  have f: "fetched (sample_run\<lparr>write_file_ok := False\<rparr>) = fetched sample_run"
    by (simp add: fetched_def)
  have b: "main (sample_run\<lparr>write_file_ok := False\<rparr>) =
     \<lparr>exit_status = 0, ended = Swallowed FsError, messages = [], video_file = None,
      convert_ticks = [], unlinked = False, tag_call = None, tagged_at = None,
      runtime_shown = None\<rparr>"
    using u by (simp add: main_def Let_def f sample_fetch)
      (simp add: sample_run_def swallowed_def)
  have e: "fetched (sample_run\<lparr>fetch_events := []\<rparr>) = fetch_init 0"
    by (simp add: fetched_def sample_run_def)
  have c: "main (sample_run\<lparr>fetch_events := []\<rparr>) =
     \<lparr>exit_status = 0, ended = Swallowed TypeError, messages = [], video_file = None,
      convert_ticks = [], unlinked = False, tag_call = None, tagged_at = None,
      runtime_shown = None\<rparr>"
    using u by (simp add: main_def Let_def e)
      (simp add: sample_run_def fetch_init_def swallowed_def)
  from a b c show ?thesis by simp
qed

subsection \<open>The elapsed time\<close>

lemma sample_main:
  "main sample_run =
     \<lparr>exit_status = 0, ended = Finished, messages = [''Conversion Completed!''],
      video_file = Some (''/tmp/A - B.mp4'', [1, 2, 3]),
      convert_ticks = [0, 50, 50], unlinked = True,
      tag_call = Some (tag_write_call ''A - B.mp3''
        \<lparr>title = Some ''B'', artist = Some ''A'', album = Some ''C'', genre = Some [],
         date = Some []\<rparr>),
      tagged_at = Some 70, runtime_shown = Some 10\<rparr>"
proof -
  have u: "truthy (url sample_run)"
    by (simp add: sample_run_def truthy_def)
  show ?thesis
    using u by (simp add: main_def Let_def sample_fetch)
      (simp add: sample_run_def convert_run_def convert_init_def on_progress_def tick_def
        new_ProgressBar_def)
qed

text \<open>
  Claim C9, as stated, fails: the end timestamp is read at line 134, when the conversion
  has completed and before the metadata is asked for and written. In the sample run the
  tagging stage ends at second 70 and the runtime shown is 10.
\<close>

theorem runtime_excludes_tagging:
  "runtime_shown (main sample_run) = Some 10 \<and>
   tagged_at (main sample_run) = Some 70 \<and>
   t_start sample_run = 0"
  by (simp add: sample_main) (simp add: sample_run_def)

text \<open>
  Claim C9, amended. The elapsed time printed is the end timestamp minus the start
  timestamp, where the end timestamp is the clock reading taken when the conversion has
  completed, before the metadata stage; the time at which the tagging ends has no
  influence on it.
\<close>

theorem runtime_is_conversion_end_minus_start:
  assumes "runtime_shown (main sc) = Some r"
  shows "r = t_converted sc - t_start sc \<and>
         runtime_shown (main (sc\<lparr>t_tagged := t'\<rparr>)) = Some r"
  using assms
  by (auto simp: main_def Let_def error_def warning_def swallowed_def uncaught_exception_def
      fetched_cong
      split: if_splits stream_end.splits convert_end.splits option.splits sum.splits)

theorem runtime_is_conversion_end_minus_start_witness:
  "runtime_shown (main sample_run) = Some 10 \<and>
   t_converted sample_run - t_start sample_run = 10 \<and>
   runtime_shown (main (sample_run\<lparr>t_tagged := 11\<rparr>)) = Some 10"
proof -
  have m: "runtime_shown (main sample_run) = Some 10"
    by (simp add: sample_main)
  have c: "t_converted sample_run - t_start sample_run = 10"
    by (simp add: sample_run_def)
  from runtime_is_conversion_end_minus_start [OF m, of 11] m c show ?thesis
    by simp
qed

end
